theory Spec2Isabelle
  imports Main "HOL-Library.Word" "HOL-Library.List_Lexorder"
begin

unbundle bit_operations_syntax

section \<open>Python values\<close>

text \<open>
  A Python \<open>str\<close> is a sequence of Unicode code points, lone surrogates included, and is
  compared code point by code point. It is modelled as a list of naturals with the
  lexicographic order of lists; \<open>lit\<close> turns an ASCII literal into such a list.
\<close>

type_synonym pystr = "nat list"
type_synonym byte = "8 word"
type_synonym u32 = "32 word"

definition lit :: "string \<Rightarrow> pystr" where
  "lit s = map of_char s"

text \<open>The exceptions that the modelled code can raise.\<close>

datatype pyerr =
    UnicodeEncodeError
  | AttributeError
  | BadRequest pystr

text \<open>
  \<open>s.encode('utf-8')\<close>: one to four bytes per code point; a surrogate
  (\<open>U+D800\<close> to \<open>U+DFFF\<close>) cannot be encoded and raises \<open>UnicodeEncodeError\<close>.
  A number from \<open>0x110000\<close> on is no code point of a Python string.
\<close>

definition utf8_char :: "nat \<Rightarrow> byte list option" where
  "utf8_char c =
     (if c < 0x80 then Some [of_nat c]
      else if c < 0x800 then Some [of_nat (0xC0 + c div 64), of_nat (0x80 + c mod 64)]
      else if 0xD800 \<le> c \<and> c \<le> 0xDFFF then None
      else if c < 0x10000 then
        Some [of_nat (0xE0 + c div 4096), of_nat (0x80 + c div 64 mod 64),
              of_nat (0x80 + c mod 64)]
      else if c < 0x110000 then
        Some [of_nat (0xF0 + c div 262144), of_nat (0x80 + c div 4096 mod 64),
              of_nat (0x80 + c div 64 mod 64), of_nat (0x80 + c mod 64)]
      else None)"

fun utf8_encode :: "pystr \<Rightarrow> pyerr + byte list" where
  "utf8_encode [] = Inr []"
| "utf8_encode (c # cs) =
     (case utf8_char c of
        None \<Rightarrow> Inl UnicodeEncodeError
      | Some bs \<Rightarrow> (case utf8_encode cs of Inl e \<Rightarrow> Inl e | Inr rest \<Rightarrow> Inr (bs @ rest)))"

text \<open>\<open>str(n)\<close> of a Python integer: its decimal digits, with a minus sign when negative.\<close>

fun str_nat :: "nat \<Rightarrow> pystr" where
  "str_nat n = (if n < 10 then [48 + n] else str_nat (n div 10) @ [48 + n mod 10])"

declare str_nat.simps [simp del]

definition str_int :: "int \<Rightarrow> pystr" where
  "str_int i = (if i < 0 then 45 # str_nat (nat (- i)) else str_nat (nat i))"

text \<open>
  The scalar values that reach the exchange client as symbol, side, quantity and order
  type, and that a parameter dict holds: \<open>None\<close>, booleans, integers and strings.
  Floats and containers (whose \<open>str\<close> needs \<open>repr\<close>) are not modelled.
  \<open>py_str\<close> is \<open>str(v)\<close>, which is also what an f-string field \<open>{v}\<close> prints.
\<close>

datatype pyval = PNone | PBool bool | PInt int | PStr pystr

fun py_str :: "pyval \<Rightarrow> pystr" where
  "py_str PNone = lit ''None''"
| "py_str (PBool b) = (if b then lit ''True'' else lit ''False'')"
| "py_str (PInt i) = str_int i"
| "py_str (PStr s) = s"

text \<open>
  A parsed JSON document, as \<open>response.json()\<close> returns it (JSON \<open>null\<close> is Python's
  \<open>None\<close>; numbers with a fraction are not modelled), and its truth value under \<open>if\<close>.
\<close>

datatype json =
    JNull
  | JBool bool
  | JInt int
  | JStr pystr
  | JArr "json list"
  | JObj "(pystr \<times> json) list"

fun truthy :: "json \<Rightarrow> bool" where
  "truthy JNull = False"
| "truthy (JBool b) = b"
| "truthy (JInt i) = (i \<noteq> 0)"
| "truthy (JStr s) = (s \<noteq> [])"
| "truthy (JArr xs) = (xs \<noteq> [])"
| "truthy (JObj kvs) = (kvs \<noteq> [])"

section \<open>Dictionaries\<close>

text \<open>
  A Python \<open>dict\<close> keeps its keys in insertion order and holds each key once: an
  association list with distinct keys. \<open>d[k] = v\<close> replaces the value of a key that is
  present, in place, and appends a new key at the end.
\<close>

type_synonym dict = "(pystr \<times> pyval) list"

primrec dict_set :: "'k \<Rightarrow> 'v \<Rightarrow> ('k \<times> 'v) list \<Rightarrow> ('k \<times> 'v) list" where
  "dict_set k v [] = [(k, v)]"
| "dict_set k v (p # ps) = (if fst p = k then (k, v) # ps else p # dict_set k v ps)"

text \<open>\<open>d.get(k, default)\<close>.\<close>

definition dict_get :: "('k \<times> 'v) list \<Rightarrow> 'k \<Rightarrow> 'v \<Rightarrow> 'v" where
  "dict_get d k dflt = (case map_of d k of None \<Rightarrow> dflt | Some v \<Rightarrow> v)"

text \<open>
  \<open>sorted(params.items())\<close> sorts the \<open>(key, value)\<close> tuples. A tuple comparison
  looks at the values only between equal keys, which a dict does not have, so the
  result is the items in ascending key order: a stable sort on the key.
\<close>

definition sorted_items :: "('k::linorder \<times> 'v) list \<Rightarrow> ('k \<times> 'v) list" where
  "sorted_items d = sort_key fst d"

text \<open>\<open>sep.join(xs)\<close>.\<close>

fun join :: "'a list \<Rightarrow> 'a list list \<Rightarrow> 'a list" where
  "join sep [] = []"
| "join sep [x] = x"
| "join sep (x # y # ys) = x @ sep @ join sep (y # ys)"

section \<open>SHA-256 and HMAC\<close>

text \<open>
  \<open>hashlib.sha256\<close> (FIPS 180-4) and \<open>hmac.new(key, msg, hashlib.sha256)\<close> (RFC 2104) of
  the Python standard library, on byte lists, and \<open>hexdigest()\<close>.
\<close>

definition rotr :: "nat \<Rightarrow> u32 \<Rightarrow> u32" where
  "rotr n x = (drop_bit n x) OR (push_bit (32 - n) x)"

definition sha256_k :: "u32 list" where
  "sha256_k =
   [0x428A2F98, 0x71374491, 0xB5C0FBCF, 0xE9B5DBA5, 0x3956C25B, 0x59F111F1, 0x923F82A4, 0xAB1C5ED5,
    0xD807AA98, 0x12835B01, 0x243185BE, 0x550C7DC3, 0x72BE5D74, 0x80DEB1FE, 0x9BDC06A7, 0xC19BF174,
    0xE49B69C1, 0xEFBE4786, 0x0FC19DC6, 0x240CA1CC, 0x2DE92C6F, 0x4A7484AA, 0x5CB0A9DC, 0x76F988DA,
    0x983E5152, 0xA831C66D, 0xB00327C8, 0xBF597FC7, 0xC6E00BF3, 0xD5A79147, 0x06CA6351, 0x14292967,
    0x27B70A85, 0x2E1B2138, 0x4D2C6DFC, 0x53380D13, 0x650A7354, 0x766A0ABB, 0x81C2C92E, 0x92722C85,
    0xA2BFE8A1, 0xA81A664B, 0xC24B8B70, 0xC76C51A3, 0xD192E819, 0xD6990624, 0xF40E3585, 0x106AA070,
    0x19A4C116, 0x1E376C08, 0x2748774C, 0x34B0BCB5, 0x391C0CB3, 0x4ED8AA4A, 0x5B9CCA4F, 0x682E6FF3,
    0x748F82EE, 0x78A5636F, 0x84C87814, 0x8CC70208, 0x90BEFFFA, 0xA4506CEB, 0xBEF9A3F7, 0xC67178F2]"

definition sha256_h0 :: "u32 list" where
  "sha256_h0 = [0x6A09E667, 0xBB67AE85, 0x3C6EF372, 0xA54FF53A,
                0x510E527F, 0x9B05688C, 0x1F83D9AB, 0x5BE0CD19]"

definition be32 :: "byte list \<Rightarrow> u32" where
  "be32 bs = foldl (\<lambda>acc b. push_bit 8 acc OR ucast b) 0 bs"

definition be_bytes32 :: "u32 \<Rightarrow> byte list" where
  "be_bytes32 v = map (\<lambda>i. ucast (drop_bit (8 * i) v)) [3, 2, 1, 0]"

definition be_bytes64 :: "64 word \<Rightarrow> byte list" where
  "be_bytes64 v = map (\<lambda>i. ucast (drop_bit (8 * i) v)) [7, 6, 5, 4, 3, 2, 1, 0]"

fun chunks :: "nat \<Rightarrow> 'a list \<Rightarrow> 'a list list" where
  "chunks n [] = []"
| "chunks n (x # xs) = (if n = 0 then [] else take n (x # xs) # chunks n (drop n (x # xs)))"

definition sha256_pad :: "byte list \<Rightarrow> byte list" where
  "sha256_pad m = m @ [0x80] @ replicate ((55 + 64 - length m mod 64) mod 64) 0
                    @ be_bytes64 (of_nat (8 * length m))"

fun schedule :: "nat \<Rightarrow> u32 list \<Rightarrow> u32 list" where
  "schedule 0 w = w"
| "schedule (Suc n) w =
     (let t = length w;
          s0 = rotr 7 (w ! (t - 15)) XOR rotr 18 (w ! (t - 15)) XOR drop_bit 3 (w ! (t - 15));
          s1 = rotr 17 (w ! (t - 2)) XOR rotr 19 (w ! (t - 2)) XOR drop_bit 10 (w ! (t - 2))
      in schedule n (w @ [w ! (t - 16) + s0 + w ! (t - 7) + s1]))"

fun sha256_round :: "u32 list \<Rightarrow> u32 \<times> u32 \<Rightarrow> u32 list" where
  "sha256_round [a, b, c, d, e, f, g, h] (k, w) =
     (let S1 = rotr 6 e XOR rotr 11 e XOR rotr 25 e;
          ch = (e AND f) XOR (NOT e AND g);
          t1 = h + S1 + ch + k + w;
          S0 = rotr 2 a XOR rotr 13 a XOR rotr 22 a;
          mj = (a AND b) XOR (a AND c) XOR (b AND c);
          t2 = S0 + mj
      in [t1 + t2, a, b, c, d + t1, e, f, g])"
| "sha256_round s _ = s"

definition sha256_block :: "u32 list \<Rightarrow> byte list \<Rightarrow> u32 list" where
  "sha256_block hs blk =
     (let w = schedule 48 (map be32 (chunks 4 blk))
      in map2 (+) hs (foldl sha256_round hs (zip sha256_k w)))"

definition sha256 :: "byte list \<Rightarrow> byte list" where
  "sha256 m = concat (map be_bytes32 (foldl sha256_block sha256_h0 (chunks 64 (sha256_pad m))))"

definition hmac_sha256 :: "byte list \<Rightarrow> byte list \<Rightarrow> byte list" where
  "hmac_sha256 key msg =
     (let k0 = (if length key > 64 then sha256 key else key);
          k = k0 @ replicate (64 - length k0) 0
      in sha256 (map (\<lambda>b. b XOR 0x5c) k @ sha256 (map (\<lambda>b. b XOR 0x36) k @ msg)))"

definition hex_digit :: "nat \<Rightarrow> nat" where
  "hex_digit d = (if d < 10 then 48 + d else 87 + d)"

definition hexdigest :: "byte list \<Rightarrow> pystr" where
  "hexdigest bs = concat (map (\<lambda>b. [hex_digit (unat b div 16), hex_digit (unat b mod 16)]) bs)"

section \<open>The exchange client\<close>

text \<open>Class \<open>MEXCTrader\<close>: the fields set by \<open>__init__\<close>.\<close>

record client =
  api_key :: pystr
  secret_key :: pystr
  base_url :: pystr

definition MEXC_BASE_URL :: pystr where
  "MEXC_BASE_URL = lit ''https://api.mexc.com''"

text \<open>
  \<open>_generate_signature\<close>, lines 27 and 28: the string that is signed. The timestamp
  is formatted by an f-string, so an integer and its decimal string give the same text.
\<close>

definition query_string :: "dict \<Rightarrow> pyval \<Rightarrow> pystr" where
  "query_string params timestamp =
     join (lit ''&'') (map (\<lambda>(k, v). k @ lit ''='' @ py_str v) (sorted_items params))
     @ lit ''&timestamp='' @ py_str timestamp"

text \<open>
  \<open>_generate_signature\<close>, lines 29 to 33. The key is encoded before the message; either
  \<open>encode\<close> can raise.
\<close>

definition generate_signature :: "client \<Rightarrow> dict \<Rightarrow> pyval \<Rightarrow> pyerr + pystr" where
  "generate_signature self params timestamp =
     (case utf8_encode (secret_key self) of
        Inl e \<Rightarrow> Inl e
      | Inr key \<Rightarrow>
          (case utf8_encode (query_string params timestamp) of
             Inl e \<Rightarrow> Inl e
           | Inr msg \<Rightarrow> Inr (hexdigest (hmac_sha256 key msg))))"

subsection \<open>The outside world\<close>

text \<open>
  What a call of \<open>requests.get\<close> or \<open>requests.post\<close> is given: the method, the URL,
  the dict passed as \<open>params=\<close> (query string) or as \<open>json=\<close> (JSON body), and the
  headers.
\<close>

datatype carrier = QueryParams dict | JsonBody dict

record http_request =
  req_method :: pystr
  req_url :: pystr
  req_carrier :: carrier
  req_headers :: "(pystr \<times> pystr) list"

text \<open>
  What comes back: an exception of the transport, or a response with its status code
  and its body parsed as JSON (\<open>None\<close> when the body is not JSON, where
  \<open>response.json()\<close> raises).
\<close>

datatype http_outcome = TransportFailure | HttpResponse nat "json option"

text \<open>The calls of the client's three public methods, with their arguments.\<close>

datatype client_call =
    PlaceOrder pyval pyval pyval pyval
  | GetAccountInfo
  | CancelAllOrders pyval

text \<open>
  The state the code runs in. Dict objects live in a store and are passed by
  reference, so that a callee's update of a dict is seen by the caller; \<open>next_ref\<close> is
  the next unused reference. \<open>time_ms\<close> gives the successive readings of
  \<open>int(time.time() * 1000)\<close> and \<open>ticks\<close> counts the readings taken. \<open>network\<close> is the
  remote side: the outcome of a request given the requests sent before it. \<open>sent\<close> and
  \<open>calls\<close> record, in order, the HTTP requests handed to \<open>requests\<close> and the calls
  of the client's methods; the code does not read them.
\<close>

record world =
  heap :: "nat \<Rightarrow> dict"
  next_ref :: nat
  time_ms :: "nat \<Rightarrow> int"
  ticks :: nat
  network :: "http_request list \<Rightarrow> http_request \<Rightarrow> http_outcome"
  sent :: "http_request list"
  calls :: "client_call list"

definition new_dict :: "dict \<Rightarrow> world \<Rightarrow> nat \<times> world" where
  "new_dict d w =
     (next_ref w, w\<lparr>heap := (heap w)(next_ref w := d), next_ref := Suc (next_ref w)\<rparr>)"

definition store_item :: "nat \<Rightarrow> pystr \<Rightarrow> pyval \<Rightarrow> world \<Rightarrow> world" where
  "store_item r k v w = w\<lparr>heap := (heap w)(r := dict_set k v (heap w r))\<rparr>"

definition read_clock :: "world \<Rightarrow> int \<times> world" where
  "read_clock w = (time_ms w (ticks w), w\<lparr>ticks := Suc (ticks w)\<rparr>)"

definition http_send :: "http_request \<Rightarrow> world \<Rightarrow> http_outcome \<times> world" where
  "http_send req w = (network w (sent w) req, w\<lparr>sent := sent w @ [req]\<rparr>)"

definition record_call :: "client_call \<Rightarrow> world \<Rightarrow> world" where
  "record_call c w = w\<lparr>calls := calls w @ [c]\<rparr>"

subsection \<open>\<open>_send_request\<close>\<close>

text \<open>
  Lines 59 to 63: \<open>raise_for_status()\<close> raises for a status from 400 to 599,
  \<open>response.json()\<close> raises when the body is not JSON, and \<open>except Exception\<close> turns
  every exception of the \<open>try\<close> block into the result \<open>None\<close>.
\<close>

definition response_json :: "http_outcome \<Rightarrow> json" where
  "response_json out =
     (case out of
        TransportFailure \<Rightarrow> JNull
      | HttpResponse status body \<Rightarrow>
          if 400 \<le> status \<and> status < 600 then JNull
          else (case body of None \<Rightarrow> JNull | Some j \<Rightarrow> j))"

text \<open>
  Lines 35 to 63. \<open>params\<close> is a reference to the caller's dict, or \<open>None\<close>, for which a
  new empty dict is made. The timestamp is stored in the dict before the signature is
  computed from the dict; the signature is computed outside the \<open>try\<close> block, so its
  exception leaves the function. For a method other than \<open>GET\<close> and \<open>POST\<close> no branch
  of the \<open>if\<close> assigns \<open>response\<close>: \<open>response.raise_for_status()\<close> raises
  \<open>UnboundLocalError\<close> inside the \<open>try\<close> block and the result is \<open>None\<close>.
\<close>

definition send_request ::
  "client \<Rightarrow> pystr \<Rightarrow> pystr \<Rightarrow> nat option \<Rightarrow> world \<Rightarrow> (pyerr + json) \<times> world"
where
  "send_request self method endpoint params w =
     (let (p, w1) = (case params of None \<Rightarrow> new_dict [] w | Some r \<Rightarrow> (r, w));
          (t, w2) = read_clock w1;
          timestamp = str_int t;
          w3 = store_item p (lit ''timestamp'') (PStr timestamp) w2;
          headers = [(lit ''X-MEXC-APIKEY'', api_key self),
                     (lit ''Content-Type'', lit ''application/json'')]
      in case generate_signature self (heap w3 p) (PStr timestamp) of
           Inl e \<Rightarrow> (Inl e, w3)
         | Inr signature \<Rightarrow>
             (let w4 = store_item p (lit ''signature'') (PStr signature) w3;
                  url = base_url self @ endpoint
              in if method = lit ''GET'' then
                   (let (out, w5) =
                          http_send \<lparr>req_method = lit ''GET'', req_url = url,
                                     req_carrier = QueryParams (heap w4 p),
                                     req_headers = headers\<rparr> w4
                    in (Inr (response_json out), w5))
                 else if method = lit ''POST'' then
                   (let (out, w5) =
                          http_send \<lparr>req_method = lit ''POST'', req_url = url,
                                     req_carrier = JsonBody (heap w4 p),
                                     req_headers = headers\<rparr> w4
                    in (Inr (response_json out), w5))
                 else (Inr JNull, w4)))"

subsection \<open>The three operations\<close>

text \<open>Lines 67 to 72: the dict literal of \<open>place_order\<close>.\<close>

definition order_params :: "pyval \<Rightarrow> pyval \<Rightarrow> pyval \<Rightarrow> pyval \<Rightarrow> dict" where
  "order_params symbol side quantity order_type =
     [(lit ''symbol'', symbol),
      (lit ''side'', side),
      (lit ''type'', order_type),
      (lit ''quoteOrderQty'', PStr (py_str quantity))]"

definition place_order ::
  "client \<Rightarrow> pyval \<Rightarrow> pyval \<Rightarrow> pyval \<Rightarrow> pyval \<Rightarrow> world \<Rightarrow> (pyerr + json) \<times> world"
where
  "place_order self symbol side quantity order_type w =
     (let (params, w1) =
            new_dict (order_params symbol side quantity order_type)
              (record_call (PlaceOrder symbol side quantity order_type) w)
      in send_request self (lit ''POST'') (lit ''/api/v3/order'') (Some params) w1)"

definition get_account_info :: "client \<Rightarrow> world \<Rightarrow> (pyerr + json) \<times> world" where
  "get_account_info self w =
     send_request self (lit ''GET'') (lit ''/api/v3/account'') None
       (record_call GetAccountInfo w)"

definition cancel_all_orders ::
  "client \<Rightarrow> pyval \<Rightarrow> world \<Rightarrow> (pyerr + json) \<times> world"
where
  "cancel_all_orders self symbol w =
     (let (params, w1) =
            new_dict [(lit ''symbol'', symbol)] (record_call (CancelAllOrders symbol) w)
      in send_request self (lit ''DELETE'') (lit ''/api/v3/openOrders'') (Some params) w1)"

section \<open>The routes\<close>

text \<open>
  The module's globals: the two credentials read from the environment when the module
  is loaded (\<open>None\<close> when the variable is not set) and the \<open>trader\<close> instance.
\<close>

record globals =
  MEXC_API_KEY :: "pystr option"
  MEXC_SECRET_KEY :: "pystr option"
  trader :: "client option"

text \<open>
  Lines 87 to 95. \<open>if MEXC_API_KEY and MEXC_SECRET_KEY\<close> holds when both are set and
  not empty.
\<close>

definition initialize_trader :: "globals \<Rightarrow> bool \<times> globals" where
  "initialize_trader g =
     (case MEXC_API_KEY g of
        None \<Rightarrow> (False, g)
      | Some k \<Rightarrow>
          (case MEXC_SECRET_KEY g of
             None \<Rightarrow> (False, g)
           | Some s \<Rightarrow>
               if k \<noteq> [] \<and> s \<noteq> [] then
                 (True, g\<lparr>trader := Some \<lparr>api_key = k, secret_key = s,
                                           base_url = MEXC_BASE_URL\<rparr>\<rparr>)
               else (False, g)))"

text \<open>
  What \<open>request.get_json()\<close> does on line 114: it raises (the body cannot be read as
  JSON; the text is the exception's), or returns something that is not a dict (on which
  \<open>data.get\<close> raises \<open>AttributeError\<close>), or returns a dict. The values of the dict are
  the scalars of \<open>pyval\<close>.
\<close>

datatype request_body =
    Unreadable pystr
  | NotADict
  | Dict "(pystr \<times> pyval) list"

text \<open>
  The JSON objects the routes answer with: \<open>{'error': text}\<close> with a fixed text,
  \<open>{'error': str(e)}\<close> for a caught exception, the success object of \<open>/webhook\<close>
  (\<open>status\<close>, \<open>message\<close>, \<open>mexc_response\<close>) and the success object of \<open>/test\<close>
  (\<open>status\<close>, \<open>message\<close>, \<open>account_info\<close>). A reply is the HTTP status with the object.
\<close>

datatype reply_body =
    Error pystr
  | ErrorOf pyerr
  | Executed pystr json
  | Connected pystr json

type_synonym reply = "nat \<times> reply_body"

text \<open>Lines 151 to 163, given what the client's method did.\<close>

definition trade_reply :: "pystr \<Rightarrow> (pyerr + json) \<times> world \<Rightarrow> reply \<times> world" where
  "trade_reply message rw =
     (case fst rw of
        Inl e \<Rightarrow> ((500, ErrorOf e), snd rw)
      | Inr result \<Rightarrow>
          if truthy result then ((200, Executed message result), snd rw)
          else ((500, Error (lit ''Trade failed'')), snd rw))"

text \<open>
  Lines 133 to 149: the chain of \<open>if\<close> and \<open>elif\<close> on the action. It calls one method
  of the client and sets the message, or, for any other action, calls nothing (\<open>None\<close>
  here; the route answers 400). \<open>action in ['buy', 'long']\<close> compares with \<open>==\<close>, which
  holds for these strings only. The code points 231 and 305 are the letters c with
  cedilla and dotless i of the messages.
\<close>

definition run_action ::
  "client \<Rightarrow> pyval \<Rightarrow> pyval \<Rightarrow> pyval \<Rightarrow> world \<Rightarrow> (pystr \<times> (pyerr + json) \<times> world) option"
where
  "run_action tr action symbol quantity w =
     (if action = PStr (lit ''buy'') \<or> action = PStr (lit ''long'') then
        Some (lit ''LONG a'' @ [231, 305] @ lit ''ld'' @ [305] @ lit '': '' @ py_str symbol
                @ lit '' - '' @ py_str quantity @ lit '' USDT'',
              place_order tr symbol (PStr (lit ''BUY'')) quantity (PStr (lit ''MARKET'')) w)
      else if action = PStr (lit ''sell'') \<or> action = PStr (lit ''short'') then
        Some (lit ''SELL a'' @ [231, 305] @ lit ''ld'' @ [305] @ lit '': '' @ py_str symbol
                @ lit '' - '' @ py_str quantity @ lit '' USDT'',
              place_order tr symbol (PStr (lit ''SELL'')) quantity (PStr (lit ''MARKET'')) w)
      else if action = PStr (lit ''close_long'') \<or> action = PStr (lit ''close_short'')
              \<or> action = PStr (lit ''close'') then
        Some (lit ''Pozisyon kapat'' @ [305] @ lit ''ld'' @ [305] @ lit '': '' @ py_str symbol,
              cancel_all_orders tr symbol w)
      else None)"

text \<open>
  Lines 111 to 163. An exception of \<open>get_json\<close> is caught before the trader is looked
  at; \<open>data.get\<close> is reached only with a trader.
\<close>

definition webhook :: "request_body \<Rightarrow> globals \<Rightarrow> world \<Rightarrow> reply \<times> globals \<times> world" where
  "webhook body g w =
     (case body of
        Unreadable text \<Rightarrow> ((500, ErrorOf (BadRequest text)), g, w)
      | _ \<Rightarrow>
          (let g1 = (if trader g = None then snd (initialize_trader g) else g)
           in case trader g1 of
                None \<Rightarrow> ((500, Error (lit ''MEXC trader not initialized'')), g1, w)
              | Some tr \<Rightarrow>
                  (case body of
                     Dict data \<Rightarrow>
                       (let action = dict_get data (lit ''action'') PNone;
                            symbol = dict_get data (lit ''symbol'') (PStr (lit ''BTCUSDT''));
                            quantity = dict_get data (lit ''quantity'') (PInt 10)
                        in case run_action tr action symbol quantity w of
                             None \<Rightarrow> ((400, Error (lit ''Invalid action'')), g1, w)
                           | Some (message, rw) \<Rightarrow>
                               (let (r, w1) = trade_reply message rw in (r, g1, w1)))
                   | _ \<Rightarrow> ((500, ErrorOf AttributeError), g1, w))))"

text \<open>
  Lines 186 to 207. The code points 287, 305 and 351 are the letters g with breve,
  dotless i and s with cedilla of the messages.
\<close>

definition test_trade :: "globals \<Rightarrow> world \<Rightarrow> reply \<times> globals \<times> world" where
  "test_trade g w =
     (let g1 = (if trader g = None then snd (initialize_trader g) else g)
      in case trader g1 of
           None \<Rightarrow> ((500, Error (lit ''Trader not initialized'')), g1, w)
         | Some tr \<Rightarrow>
             (let (res, w1) = get_account_info tr w
              in case res of
                   Inl e \<Rightarrow> ((500, ErrorOf e), g1, w1)
                 | Inr account_info \<Rightarrow>
                     if truthy account_info then
                       ((200, Connected
                                (lit ''MEXC ba'' @ [287] @ lit ''lant'' @ [305] @ lit ''s'' @ [305]
                                  @ lit '' ba'' @ [351] @ lit ''ar'' @ [305] @ lit ''l'' @ [305]
                                  @ lit ''!'')
                                account_info), g1, w1)
                     else
                       ((500, Error
                                (lit ''MEXC ba'' @ [287] @ lit ''lant'' @ [305] @ lit ''s'' @ [305]
                                  @ lit '' ba'' @ [351] @ lit ''ar'' @ [305] @ lit ''s'' @ [305]
                                  @ lit ''z!'')), g1, w1)))"

text \<open>
  Requests to the two routes that use the client, served one after the other from the
  globals and the world that the one before left.
\<close>

datatype request = PostWebhook request_body | PostTest

fun handle :: "request \<Rightarrow> globals \<Rightarrow> world \<Rightarrow> reply \<times> globals \<times> world" where
  "handle (PostWebhook body) g w = webhook body g w"
| "handle PostTest g w = test_trade g w"

fun serve :: "request list \<Rightarrow> globals \<Rightarrow> world \<Rightarrow> reply list \<times> globals \<times> world" where
  "serve [] g w = ([], g, w)"
| "serve (r # rs) g w =
     (case handle r g w of
        (a, g1, w1) \<Rightarrow> (case serve rs g1 w1 of (as, g2, w2) \<Rightarrow> (a # as, g2, w2)))"

section \<open>Notions used to state the properties\<close>

text \<open>
  A string has UTF-8 bytes when each of its code points is a Unicode scalar value:
  below \<open>0x110000\<close> and not a surrogate.
\<close>

definition encodable :: "pystr \<Rightarrow> bool" where
  "encodable s = list_all (\<lambda>c. c < 0xD800 \<or> (0xDFFF < c \<and> c < 0x110000)) s"

text \<open>
  The reply to a request that finds no trader and no credentials to make one: the
  route's own initialization error, except for a \<open>/webhook\<close> body that cannot be read,
  which is answered with the parser's exception.
\<close>

fun uninitialized_reply :: "request \<Rightarrow> reply" where
  "uninitialized_reply (PostWebhook (Unreadable text)) = (500, ErrorOf (BadRequest text))"
| "uninitialized_reply (PostWebhook body) = (500, Error (lit ''MEXC trader not initialized''))"
| "uninitialized_reply PostTest = (500, Error (lit ''Trader not initialized''))"

text \<open>
  What an operation gives for the outcome of its one request, in the words of C7:
  \<open>None\<close> on a transport failure, on a status from 400 to 599 and on a body that is not
  JSON; the parsed JSON body when the status is outside 400 to 599 and the body is JSON.
\<close>

definition result_for :: "http_outcome \<Rightarrow> json \<Rightarrow> bool" where
  "result_for out r \<longleftrightarrow>
     (out = TransportFailure \<longrightarrow> r = JNull)
   \<and> (\<forall>status body. out = HttpResponse status body \<and> 400 \<le> status \<and> status < 600 \<longrightarrow> r = JNull)
   \<and> (\<forall>status. out = HttpResponse status None \<longrightarrow> r = JNull)
   \<and> (\<forall>status j. out = HttpResponse status (Some j) \<and> (status < 400 \<or> 600 \<le> status) \<longrightarrow> r = j)"

section \<open>Example states\<close>

text \<open>
  A client with ASCII credentials; a world with an empty store, a clock that reads
  1700000000000 ms and a network that answers every request with the given outcome;
  globals with and without credentials.
\<close>

definition demo_client :: client where
  "demo_client = \<lparr>api_key = lit ''key'', secret_key = lit ''secret'', base_url = MEXC_BASE_URL\<rparr>"

definition demo_world :: "http_outcome \<Rightarrow> world" where
  "demo_world out =
     \<lparr>heap = (\<lambda>r. []), next_ref = 0, time_ms = (\<lambda>n. 1700000000000), ticks = 0,
      network = (\<lambda>history req. out), sent = [], calls = []\<rparr>"

definition demo_globals :: globals where
  "demo_globals = \<lparr>MEXC_API_KEY = Some (lit ''key''), MEXC_SECRET_KEY = Some (lit ''secret''),
                    trader = Some demo_client\<rparr>"

definition unconfigured :: globals where
  "unconfigured = \<lparr>MEXC_API_KEY = None, MEXC_SECRET_KEY = Some (lit ''secret''), trader = None\<rparr>"

section \<open>The signature as the specification states it\<close>

text \<open>
  The specification's \<open>sign(params, timestamp)\<close>, for a mapping of strings to strings
  and an integer timestamp: the keys in ascending order, each serialized with its value
  as \<open>k=v\<close>, joined by \<open>&\<close>, then \<open>&timestamp=<timestamp>\<close>; HMAC-SHA256 keyed by the
  secret over the UTF-8 bytes of that string; the digest in lowercase hexadecimal.
\<close>

definition spec_serialize :: "(pystr \<times> pystr) list \<Rightarrow> int \<Rightarrow> pystr" where
  "spec_serialize P ts =
     join (lit ''&'')
       (map (\<lambda>k. case map_of P k of None \<Rightarrow> [] | Some v \<Rightarrow> k @ lit ''='' @ v)
          (sort (map fst P)))
     @ lit ''&timestamp='' @ str_int ts"

definition spec_hex :: "byte list \<Rightarrow> pystr" where
  "spec_hex bs =
     concat (map (\<lambda>b. [lit ''0123456789abcdef'' ! (unat b div 16),
                        lit ''0123456789abcdef'' ! (unat b mod 16)]) bs)"

definition spec_sign :: "pystr \<Rightarrow> (pystr \<times> pystr) list \<Rightarrow> int \<Rightarrow> pyerr + pystr" where
  "spec_sign secret P ts =
     (case utf8_encode secret of
        Inl e \<Rightarrow> Inl e
      | Inr key \<Rightarrow>
          (case utf8_encode (spec_serialize P ts) of
             Inl e \<Rightarrow> Inl e
           | Inr msg \<Rightarrow> Inr (spec_hex (hmac_sha256 key msg))))"

section \<open>Sorting the items of a dict\<close>

lemma insort_key_map:
  "insort_key f (g x) (map g xs) = map g (insort_key (\<lambda>y. f (g y)) x xs)"
  by (induction xs) simp_all

lemma sort_key_map: "sort_key f (map g xs) = map g (sort_key (\<lambda>y. f (g y)) xs)"
  by (induction xs) (simp_all add: insort_key_map)

lemma map_fst_insort_key:
  "map fst (insort_key fst p ps) = insort (fst p) (map fst ps)"
  by (induction ps) simp_all

lemma map_fst_sort_key: "map fst (sort_key fst ps) = sort (map fst ps)"
  by (induction ps) (simp_all add: map_fst_insort_key)

lemma items_by_lookup:
  assumes "distinct (map fst d)" and "set ps \<subseteq> set d"
  shows "map (\<lambda>(k, v). g k v) ps =
         map (\<lambda>k. case map_of d k of None \<Rightarrow> z | Some v \<Rightarrow> g k v) (map fst ps)"
  using assms by (induction ps) (auto simp add: map_of_is_SomeI)

lemma sorted_items_unique:
  assumes "distinct (map fst d1)" and "distinct (map fst d2)" and "set d1 = set d2"
  shows "sorted_items d1 = sorted_items d2"
proof -
  have "inj_on fst (set d1)"
    using assms(1) by (simp add: distinct_map)
  then have "inj_on fst (set (sort_key fst d1) \<union> set (sort_key fst d2))"
    using assms(3) by simp
  moreover have "distinct (map fst (sort_key fst d1))" "distinct (map fst (sort_key fst d2))"
    using assms(1,2) by (simp_all add: map_fst_sort_key)
  ultimately show ?thesis
    unfolding sorted_items_def
    using assms(3) by (intro map_sorted_distinct_set_unique) simp_all
qed

section \<open>The signature\<close>

lemma hex_digit_nth:
  assumes "d < 16"
  shows "hex_digit d = lit ''0123456789abcdef'' ! d"
proof -
  from assms have "d \<in> set [0..<16]" by simp
  then show ?thesis
    by (auto simp add: hex_digit_def lit_def upt_rec)
qed

lemma hexdigest_spec_hex: "hexdigest bs = spec_hex bs"
proof -
  have "unat b div 16 < 16" for b :: byte
    using unsigned_less [of b, where 'a = nat] by simp
  then show ?thesis
    by (simp add: hexdigest_def spec_hex_def hex_digit_nth)
qed

lemma query_string_spec:
  assumes "distinct (map fst P)"
  shows "query_string (map (\<lambda>(k, v). (k, PStr v)) P) (PInt ts) = spec_serialize P ts"
proof -
  have "map (\<lambda>(k, v). k @ lit ''='' @ py_str v) (sorted_items (map (\<lambda>(k, v). (k, PStr v)) P))
      = map (\<lambda>(k, v). k @ lit ''='' @ v) (sort_key fst P)"
    by (simp add: sorted_items_def sort_key_map case_prod_unfold comp_def)
  also have "\<dots> = map (\<lambda>k. case map_of P k of None \<Rightarrow> [] | Some v \<Rightarrow> k @ lit ''='' @ v)
                     (map fst (sort_key fst P))"
    using assms by (intro items_by_lookup) simp_all
  finally show ?thesis
    by (simp add: query_string_def spec_serialize_def map_fst_sort_key)
qed

text \<open>
  C3. For a mapping of string keys to string values (a dict, so its keys are distinct)
  and an integer timestamp, \<open>_generate_signature\<close> returns what the specification's
  \<open>sign\<close> describes: the lowercase hexadecimal HMAC-SHA256, keyed by the secret, of the
  UTF-8 bytes of the items in ascending key order serialized as \<open>k1=v1&k2=v2&...\<close> with
  \<open>&timestamp=<timestamp>\<close> appended. Where the secret or that string has no UTF-8
  encoding, both raise \<open>UnicodeEncodeError\<close>.
\<close>

theorem generate_signature_spec:
  assumes "distinct (map fst P)"
  shows "generate_signature self (map (\<lambda>(k, v). (k, PStr v)) P) (PInt ts)
         = spec_sign (secret_key self) P ts"
  by (simp add: generate_signature_def spec_sign_def query_string_spec [OF assms]
      hexdigest_spec_hex cong: sum.case_cong)

theorem generate_signature_spec_witness:
  "distinct (map fst [(lit ''symbol'', lit ''BTCUSDT''), (lit ''side'', lit ''BUY'')])
   \<and> generate_signature \<lparr>api_key = lit ''key'', secret_key = lit ''secret'', base_url = MEXC_BASE_URL\<rparr>
        (map (\<lambda>(k, v). (k, PStr v)) [(lit ''symbol'', lit ''BTCUSDT''), (lit ''side'', lit ''BUY'')])
        (PInt 1700000000000)
     = spec_sign (lit ''secret'') [(lit ''symbol'', lit ''BTCUSDT''), (lit ''side'', lit ''BUY'')]
         1700000000000
   \<and> spec_serialize [(lit ''symbol'', lit ''BTCUSDT''), (lit ''side'', lit ''BUY'')] 1700000000000
     = lit ''side=BUY&symbol=BTCUSDT&timestamp=1700000000000''"
proof -
  have d: "distinct (map fst [(lit ''symbol'', lit ''BTCUSDT''), (lit ''side'', lit ''BUY'')])"
    by (simp add: lit_def)
  have s: "spec_serialize [(lit ''symbol'', lit ''BTCUSDT''), (lit ''side'', lit ''BUY'')] 1700000000000
     = lit ''side=BUY&symbol=BTCUSDT&timestamp=1700000000000''"
    by (simp add: spec_serialize_def lit_def str_int_def str_nat.simps)
  show ?thesis
    using d s generate_signature_spec [OF d, of
        "\<lparr>api_key = lit ''key'', secret_key = lit ''secret'', base_url = MEXC_BASE_URL\<rparr>"
        1700000000000]
    by simp
qed

text \<open>
  C9. The signature is a function of the secret, the set of items of the dict and
  the timestamp: two dicts that hold the same items, in whatever order they were
  inserted, get the same signature for the same timestamp.
\<close>

theorem generate_signature_insertion_order:
  assumes "distinct (map fst d1)" and "distinct (map fst d2)" and "set d1 = set d2"
  shows "generate_signature self d1 ts = generate_signature self d2 ts"
  by (simp add: generate_signature_def query_string_def sorted_items_unique [OF assms]
      cong: sum.case_cong)

theorem generate_signature_insertion_order_witness:
  "distinct (map fst [(lit ''symbol'', PStr (lit ''BTCUSDT'')), (lit ''side'', PStr (lit ''BUY''))])
   \<and> distinct (map fst [(lit ''side'', PStr (lit ''BUY'')), (lit ''symbol'', PStr (lit ''BTCUSDT''))])
   \<and> set [(lit ''symbol'', PStr (lit ''BTCUSDT'')), (lit ''side'', PStr (lit ''BUY''))]
       = set [(lit ''side'', PStr (lit ''BUY'')), (lit ''symbol'', PStr (lit ''BTCUSDT''))]
   \<and> generate_signature \<lparr>api_key = lit ''key'', secret_key = lit ''secret'', base_url = MEXC_BASE_URL\<rparr>
        [(lit ''symbol'', PStr (lit ''BTCUSDT'')), (lit ''side'', PStr (lit ''BUY''))] (PInt 5)
     = generate_signature \<lparr>api_key = lit ''key'', secret_key = lit ''secret'', base_url = MEXC_BASE_URL\<rparr>
        [(lit ''side'', PStr (lit ''BUY'')), (lit ''symbol'', PStr (lit ''BTCUSDT''))] (PInt 5)"
proof -
  have d1: "distinct (map fst [(lit ''symbol'', PStr (lit ''BTCUSDT'')), (lit ''side'', PStr (lit ''BUY''))])"
    by (simp add: lit_def)
  have d2: "distinct (map fst [(lit ''side'', PStr (lit ''BUY'')), (lit ''symbol'', PStr (lit ''BTCUSDT''))])"
    by (simp add: lit_def)
  have e: "set [(lit ''symbol'', PStr (lit ''BTCUSDT'')), (lit ''side'', PStr (lit ''BUY''))]
       = set [(lit ''side'', PStr (lit ''BUY'')), (lit ''symbol'', PStr (lit ''BTCUSDT''))]"
    by auto
  show ?thesis
    using d1 d2 e generate_signature_insertion_order [OF d1 d2 e] by blast
qed

section \<open>Strings that have UTF-8 bytes\<close>

lemma utf8_char_Some: 
  "c < 0xD800 \<or> (0xDFFF < c \<and> c < 0x110000) \<Longrightarrow> \<exists>bs. utf8_char c = Some bs"
  by (auto simp add: utf8_char_def)

lemma utf8_char_None:
  "\<not> (c < 0xD800 \<or> (0xDFFF < c \<and> c < 0x110000)) \<Longrightarrow> utf8_char c = None"
  by (auto simp add: utf8_char_def)

lemma utf8_encode_error: "utf8_encode s = Inl e \<Longrightarrow> e = UnicodeEncodeError"
  by (induction s arbitrary: e) (auto split: option.splits sum.splits)

lemma utf8_encode_encodable: "encodable s \<longleftrightarrow> (\<exists>bs. utf8_encode s = Inr bs)"
proof (induction s)
  case Nil
  show ?case by (simp add: encodable_def)
next
  case (Cons c s)
  show ?case
  proof (cases "c < 0xD800 \<or> (0xDFFF < c \<and> c < 0x110000)")
    case True
    then obtain bs where "utf8_char c = Some bs"
      using utf8_char_Some by blast
    with True Cons show ?thesis
      by (auto simp add: encodable_def split: sum.splits)
  next
    case False
    then have "utf8_char c = None"
      by (rule utf8_char_None)
    with False show ?thesis
      by (auto simp add: encodable_def)
  qed
qed

lemma encodable_append [simp]: "encodable (a @ b) \<longleftrightarrow> encodable a \<and> encodable b"
  by (simp add: encodable_def)

lemma encodable_Nil [simp]: "encodable []"
  by (simp add: encodable_def)

lemma encodable_lit [simp]: "encodable (lit s)"
proof -
  have "of_char c < (256::nat)" for c :: char
    by (cases c) simp
  then have "of_char c < (0xD800::nat)" for c :: char
    using less_trans [of "of_char c" 256 "0xD800::nat"] by simp
  then show ?thesis
    by (simp add: encodable_def lit_def list_all_iff)
qed

lemma encodable_str_nat [simp]: "encodable (str_nat n)"
proof (induction n rule: str_nat.induct)
  case (1 n)
  show ?case
  proof (cases "n < 10")
    case True
    then show ?thesis
      by (subst str_nat.simps) (simp add: encodable_def)
  next
    case False
    have "48 + n mod 10 < 0xD800"
      by (rule less_trans [of _ 58]) simp_all
    with False 1 show ?thesis
      by (subst str_nat.simps) (simp add: encodable_def)
  qed
qed

lemma encodable_str_int [simp]: "encodable (str_int i)"
proof (cases "i < 0")
  case True
  have "encodable [45]" by (simp add: encodable_def)
  then have "encodable ([45] @ str_nat (nat (- i)))"
    unfolding encodable_append by simp
  with True show ?thesis by (simp add: str_int_def)
next
  case False
  then show ?thesis by (simp add: str_int_def)
qed

lemma encodable_join:
  "encodable sep \<Longrightarrow> (\<And>x. x \<in> set xs \<Longrightarrow> encodable x) \<Longrightarrow> encodable (join sep xs)"
  by (induction sep xs rule: join.induct) simp_all

lemma encodable_query_string:
  assumes "\<And>k v. (k, v) \<in> set d \<Longrightarrow> encodable k \<and> encodable (py_str v)"
    and "encodable (py_str ts)"
  shows "encodable (query_string d ts)"
  unfolding query_string_def
  using assms by (auto simp add: sorted_items_def intro!: encodable_join)

lemma generate_signature_encodable:
  assumes "encodable (secret_key self)" and "encodable (query_string d ts)"
  shows "\<exists>s. generate_signature self d ts = Inr s"
  using assms
  by (auto simp add: generate_signature_def utf8_encode_encodable split: sum.splits)

lemma generate_signature_error:
  "generate_signature self d ts = Inl e \<Longrightarrow> e = UnicodeEncodeError"
  by (auto simp add: generate_signature_def split: sum.splits dest: utf8_encode_error)

section \<open>The send operation\<close>

lemmas world_ops = new_dict_def store_item_def read_clock_def http_send_def record_call_def

lemma send_request_raises:
  assumes "generate_signature self
             (dict_set (lit ''timestamp'') (PStr (str_int (time_ms w (ticks w)))) (heap w p))
             (PStr (str_int (time_ms w (ticks w)))) = Inl e"
  shows "send_request self method endpoint (Some p) w =
         (Inl e, w\<lparr>heap := (heap w)
                   (p := dict_set (lit ''timestamp'') (PStr (str_int (time_ms w (ticks w)))) (heap w p)),
                 ticks := Suc (ticks w)\<rparr>)"
  using assms by (simp add: send_request_def world_ops Let_def)

lemma send_request_signed:
  assumes "generate_signature self
             (dict_set (lit ''timestamp'') (PStr (str_int (time_ms w (ticks w)))) (heap w p))
             (PStr (str_int (time_ms w (ticks w)))) = Inr s"
  shows "send_request self method endpoint (Some p) w =
     (let d = dict_set (lit ''signature'') (PStr s)
                (dict_set (lit ''timestamp'') (PStr (str_int (time_ms w (ticks w)))) (heap w p));
          w4 = w\<lparr>heap := (heap w)(p := d), ticks := Suc (ticks w)\<rparr>;
          headers = [(lit ''X-MEXC-APIKEY'', api_key self),
                     (lit ''Content-Type'', lit ''application/json'')]
      in if method = lit ''GET'' then
           (Inr (response_json (network w (sent w)
                   \<lparr>req_method = lit ''GET'', req_url = base_url self @ endpoint,
                    req_carrier = QueryParams d, req_headers = headers\<rparr>)),
            w4\<lparr>sent := sent w @ [\<lparr>req_method = lit ''GET'', req_url = base_url self @ endpoint,
                    req_carrier = QueryParams d, req_headers = headers\<rparr>]\<rparr>)
         else if method = lit ''POST'' then
           (Inr (response_json (network w (sent w)
                   \<lparr>req_method = lit ''POST'', req_url = base_url self @ endpoint,
                    req_carrier = JsonBody d, req_headers = headers\<rparr>)),
            w4\<lparr>sent := sent w @ [\<lparr>req_method = lit ''POST'', req_url = base_url self @ endpoint,
                    req_carrier = JsonBody d, req_headers = headers\<rparr>]\<rparr>)
         else (Inr JNull, w4))"
  using assms by (simp add: send_request_def world_ops Let_def)

lemma send_request_None:
  "send_request self method endpoint None w =
   send_request self method endpoint (Some (next_ref w))
     (w\<lparr>heap := (heap w)(next_ref w := []), next_ref := Suc (next_ref w)\<rparr>)"
  by (simp add: send_request_def world_ops Let_def)

lemma send_request_calls: "calls (snd (send_request self method endpoint params w)) = calls w"
proof (cases params)
  case None
  then show ?thesis
    by (simp add: send_request_def world_ops Let_def split: sum.splits)
next
  case (Some p)
  then show ?thesis
    by (simp add: send_request_def world_ops Let_def split: sum.splits)
qed

lemma lit_neq [simp]:
  "lit ''GET'' \<noteq> lit ''POST''" "lit ''POST'' \<noteq> lit ''GET''"
  "lit ''DELETE'' \<noteq> lit ''GET''" "lit ''DELETE'' \<noteq> lit ''POST''"
  by (simp_all add: lit_def)

lemma send_request_delete_sent:
  "sent (snd (send_request self (lit ''DELETE'') endpoint params w)) = sent w"
  by (cases params) (simp_all add: send_request_def world_ops Let_def split: sum.splits)

lemmas demo_defs = demo_client_def demo_world_def MEXC_BASE_URL_def

lemmas eval_defs = place_order_def get_account_info_def cancel_all_orders_def order_params_def
  send_request_def world_ops Let_def demo_defs generate_signature_def query_string_def
  sorted_items_def str_int_def str_nat.simps utf8_char_def lit_def response_json_def

text \<open>
  C1. The string that a dispatch digests is not the other parameters followed by one
  \<open>&timestamp=\<close>: \<open>_send_request\<close> stores the timestamp in the dict on line 41, before
  \<open>_generate_signature\<close> sorts the dict on line 27 and appends \<open>&timestamp=\<close> on line 28.
  For \<open>place_order("BTCUSDT", "BUY", 50, "MARKET")\<close> at the clock reading 1700000000000
  the body that is posted carries the HMAC of
  \<open>quoteOrderQty=50&side=BUY&symbol=BTCUSDT&timestamp=1700000000000&type=MARKET&timestamp=1700000000000\<close>:
  the timestamp is digested twice, once in key order before \<open>type\<close> and once at the
  end. The signature itself is not in the digested string.
\<close>

theorem place_order_digest_example:
  "map req_carrier (sent (snd (place_order demo_client (PStr (lit ''BTCUSDT'')) (PStr (lit ''BUY''))
      (PInt 50) (PStr (lit ''MARKET'')) (demo_world TransportFailure)))) =
   [JsonBody
     [(lit ''symbol'', PStr (lit ''BTCUSDT'')),
      (lit ''side'', PStr (lit ''BUY'')),
      (lit ''type'', PStr (lit ''MARKET'')),
      (lit ''quoteOrderQty'', PStr (lit ''50'')),
      (lit ''timestamp'', PStr (lit ''1700000000000'')),
      (lit ''signature'', PStr (hexdigest (hmac_sha256 (map of_nat (lit ''secret''))
         (map of_nat (lit ''quoteOrderQty=50&side=BUY&symbol=BTCUSDT&timestamp=1700000000000&type=MARKET&timestamp=1700000000000'')))))]]"
  by (simp add: place_order_def order_params_def send_request_def world_ops Let_def demo_defs
      generate_signature_def query_string_def sorted_items_def str_int_def str_nat.simps
      utf8_char_def lit_def)

text \<open>
  C8, as the code has it. \<open>_send_request\<close> works on the dict it is given, not on a copy:
  after the call the caller's dict holds the key \<open>timestamp\<close>, and the key \<open>signature\<close>
  when the signature could be computed. Every other dict is left as it was; without a
  dict from the caller, the one changed is the new dict made for the call.
\<close>

theorem send_request_updates_the_dict:
  "heap (snd (send_request self method endpoint (Some p) w)) p =
     (case generate_signature self
             (dict_set (lit ''timestamp'') (PStr (str_int (time_ms w (ticks w)))) (heap w p))
             (PStr (str_int (time_ms w (ticks w)))) of
        Inl e \<Rightarrow> dict_set (lit ''timestamp'') (PStr (str_int (time_ms w (ticks w)))) (heap w p)
      | Inr signature \<Rightarrow>
          dict_set (lit ''signature'') (PStr signature)
            (dict_set (lit ''timestamp'') (PStr (str_int (time_ms w (ticks w)))) (heap w p)))
   \<and> (\<forall>q. q \<noteq> p \<longrightarrow> heap (snd (send_request self method endpoint (Some p) w)) q = heap w q)
   \<and> (\<forall>q. q \<noteq> next_ref w \<longrightarrow>
          heap (snd (send_request self method endpoint None w)) q = heap w q)"
proof (intro conjI allI impI)
  show "heap (snd (send_request self method endpoint (Some p) w)) p =
     (case generate_signature self
             (dict_set (lit ''timestamp'') (PStr (str_int (time_ms w (ticks w)))) (heap w p))
             (PStr (str_int (time_ms w (ticks w)))) of
        Inl e \<Rightarrow> dict_set (lit ''timestamp'') (PStr (str_int (time_ms w (ticks w)))) (heap w p)
      | Inr signature \<Rightarrow>
          dict_set (lit ''signature'') (PStr signature)
            (dict_set (lit ''timestamp'') (PStr (str_int (time_ms w (ticks w)))) (heap w p)))"
    by (simp add: send_request_def world_ops Let_def split: sum.splits)
next
  fix q assume "q \<noteq> p"
  then show "heap (snd (send_request self method endpoint (Some p) w)) q = heap w q"
    by (simp add: send_request_def world_ops Let_def split: sum.splits)
next
  fix q assume "q \<noteq> next_ref w"
  then show "heap (snd (send_request self method endpoint None w)) q = heap w q"
    by (simp add: send_request_def world_ops Let_def split: sum.splits)
qed

theorem send_request_updates_the_dict_witness:
  "(1::nat) \<noteq> 0
   \<and> heap (snd (send_request demo_client (lit ''GET'') (lit ''/api/v3/account'') (Some 0)
              (demo_world TransportFailure))) 1
     = heap (demo_world TransportFailure) 1
   \<and> (1::nat) \<noteq> next_ref (demo_world TransportFailure)
   \<and> heap (snd (send_request demo_client (lit ''GET'') (lit ''/api/v3/account'') None
              (demo_world TransportFailure))) 1
     = heap (demo_world TransportFailure) 1"
  using send_request_updates_the_dict [of demo_client "lit ''GET''" "lit ''/api/v3/account''" 0
      "demo_world TransportFailure"]
  by (simp add: demo_world_def)

text \<open>
  C8, as stated, fails: a caller's dict \<open>{'symbol': 'BTCUSDT'}\<close> passed to
  \<open>_send_request\<close> has the keys \<open>symbol\<close>, \<open>timestamp\<close> and \<open>signature\<close> afterwards.
\<close>

theorem send_request_alias_example:
  "heap ((demo_world TransportFailure)\<lparr>heap := (\<lambda>r. [(lit ''symbol'', PStr (lit ''BTCUSDT''))]),
                                          next_ref := 1\<rparr>) 0
     = [(lit ''symbol'', PStr (lit ''BTCUSDT''))]
   \<and> map fst (heap (snd (send_request demo_client (lit ''GET'') (lit ''/api/v3/openOrders'') (Some 0)
        ((demo_world TransportFailure)\<lparr>heap := (\<lambda>r. [(lit ''symbol'', PStr (lit ''BTCUSDT''))]),
                                          next_ref := 1\<rparr>))) 0)
     = [lit ''symbol'', lit ''timestamp'', lit ''signature'']"
  by (simp add: send_request_def world_ops Let_def demo_defs
      generate_signature_def query_string_def sorted_items_def str_int_def str_nat.simps
      utf8_char_def lit_def)

section \<open>The three operations\<close>

text \<open>
  C2. \<open>cancel_all_orders\<close> hands no request to \<open>requests\<close>, for any symbol: it calls
  \<open>_send_request\<close> with the method \<open>DELETE\<close>, for which lines 54 to 57 have no branch,
  and returns \<open>None\<close> (or raises, when the symbol or the secret has no UTF-8 bytes).
\<close>

theorem cancel_all_orders_sends_nothing:
  "sent (snd (cancel_all_orders self symbol w)) = sent w
   \<and> (fst (cancel_all_orders self symbol w) = Inr JNull
      \<or> fst (cancel_all_orders self symbol w) = Inl UnicodeEncodeError)"
proof (cases "generate_signature self
                (dict_set (lit ''timestamp'') (PStr (str_int (time_ms w (ticks w))))
                   [(lit ''symbol'', symbol)])
                (PStr (str_int (time_ms w (ticks w))))")
  case (Inl e)
  then have "e = UnicodeEncodeError"
    by (rule generate_signature_error)
  with Inl show ?thesis
    by (simp add: cancel_all_orders_def new_dict_def record_call_def send_request_raises)
next
  case (Inr s)
  then show ?thesis
    by (simp add: cancel_all_orders_def new_dict_def record_call_def send_request_signed Let_def)
qed

lemma order_params_timestamp:
  "dict_set (lit ''timestamp'') v (order_params symbol side quantity order_type)
   = order_params symbol side quantity order_type @ [(lit ''timestamp'', v)]"
  by (simp add: order_params_def lit_def)

lemma order_signature_exists:
  assumes "encodable (secret_key self)" and "encodable (py_str symbol)"
    and "encodable (py_str side)" and "encodable (py_str quantity)"
    and "encodable (py_str order_type)"
  shows "\<exists>s. generate_signature self
           (order_params symbol side quantity order_type @ [(lit ''timestamp'', PStr (str_int t))])
           (PStr (str_int t)) = Inr s"
proof (rule generate_signature_encodable [OF assms(1)], rule encodable_query_string)
  fix k v
  assume "(k, v) \<in> set (order_params symbol side quantity order_type
                           @ [(lit ''timestamp'', PStr (str_int t))])"
  with assms show "encodable k \<and> encodable (py_str v)"
    by (auto simp add: order_params_def)
next
  show "encodable (py_str (PStr (str_int t)))" by simp
qed

text \<open>
  C4, as the code has it. When the secret key and the texts of the symbol, the side, the
  quote amount and the order type have UTF-8 bytes, \<open>place_order\<close> hands exactly one
  request to \<open>requests.post\<close>: a POST to the base URL followed by \<open>/api/v3/order\<close>, whose
  JSON body is the dict of exactly the four entries \<open>symbol\<close>, \<open>side\<close>, \<open>type\<close> and
  \<open>quoteOrderQty\<close> (the \<open>str\<close> of the quote amount) to which \<open>timestamp\<close> and
  \<open>signature\<close> were then added, with the API key in a header.
\<close>

theorem place_order_dispatch:
  assumes "encodable (secret_key self)" and "encodable (py_str symbol)"
    and "encodable (py_str side)" and "encodable (py_str quantity)"
    and "encodable (py_str order_type)"
  shows "\<exists>signature.
           generate_signature self
             [(lit ''symbol'', symbol), (lit ''side'', side), (lit ''type'', order_type),
              (lit ''quoteOrderQty'', PStr (py_str quantity)),
              (lit ''timestamp'', PStr (str_int (time_ms w (ticks w))))]
             (PStr (str_int (time_ms w (ticks w)))) = Inr signature
         \<and> sent (snd (place_order self symbol side quantity order_type w)) =
             sent w @
             [\<lparr>req_method = lit ''POST'',
               req_url = base_url self @ lit ''/api/v3/order'',
               req_carrier = JsonBody
                 [(lit ''symbol'', symbol), (lit ''side'', side), (lit ''type'', order_type),
                  (lit ''quoteOrderQty'', PStr (py_str quantity)),
                  (lit ''timestamp'', PStr (str_int (time_ms w (ticks w)))),
                  (lit ''signature'', PStr signature)],
               req_headers = [(lit ''X-MEXC-APIKEY'', api_key self),
                              (lit ''Content-Type'', lit ''application/json'')]\<rparr>]"
proof -
  obtain s where s: "generate_signature self
           (order_params symbol side quantity order_type
              @ [(lit ''timestamp'', PStr (str_int (time_ms w (ticks w))))])
           (PStr (str_int (time_ms w (ticks w)))) = Inr s"
    using order_signature_exists [OF assms] by blast
  have sig: "dict_set (lit ''signature'') v
               (order_params symbol side quantity order_type @ [(lit ''timestamp'', u)])
             = order_params symbol side quantity order_type
               @ [(lit ''timestamp'', u), (lit ''signature'', v)]" for u v
    by (simp add: order_params_def lit_def)
  have "sent (snd (place_order self symbol side quantity order_type w)) =
        sent w @
         [\<lparr>req_method = lit ''POST'',
           req_url = base_url self @ lit ''/api/v3/order'',
           req_carrier = JsonBody (order_params symbol side quantity order_type
              @ [(lit ''timestamp'', PStr (str_int (time_ms w (ticks w)))),
                 (lit ''signature'', PStr s)]),
           req_headers = [(lit ''X-MEXC-APIKEY'', api_key self),
                          (lit ''Content-Type'', lit ''application/json'')]\<rparr>]"
    using s
    by (simp add: place_order_def new_dict_def record_call_def send_request_signed
        order_params_timestamp sig Let_def)
  with s show ?thesis
    by (auto simp add: order_params_def)
qed

theorem place_order_dispatch_witness:
  "encodable (secret_key demo_client) \<and> encodable (py_str (PStr (lit ''BTCUSDT'')))
   \<and> encodable (py_str (PStr (lit ''BUY''))) \<and> encodable (py_str (PInt 50))
   \<and> encodable (py_str (PStr (lit ''MARKET'')))
   \<and> (\<exists>signature.
        sent (snd (place_order demo_client (PStr (lit ''BTCUSDT'')) (PStr (lit ''BUY'')) (PInt 50)
                     (PStr (lit ''MARKET'')) (demo_world TransportFailure))) =
        [\<lparr>req_method = lit ''POST'',
          req_url = lit ''https://api.mexc.com/api/v3/order'',
          req_carrier = JsonBody
            [(lit ''symbol'', PStr (lit ''BTCUSDT'')), (lit ''side'', PStr (lit ''BUY'')),
             (lit ''type'', PStr (lit ''MARKET'')), (lit ''quoteOrderQty'', PStr (lit ''50'')),
             (lit ''timestamp'', PStr (lit ''1700000000000'')),
             (lit ''signature'', PStr signature)],
          req_headers = [(lit ''X-MEXC-APIKEY'', lit ''key''),
                         (lit ''Content-Type'', lit ''application/json'')]\<rparr>])"
proof -
  have h: "encodable (secret_key demo_client)" "encodable (py_str (PStr (lit ''BTCUSDT'')))"
    "encodable (py_str (PStr (lit ''BUY'')))" "encodable (py_str (PInt 50))"
    "encodable (py_str (PStr (lit ''MARKET'')))"
    by (simp_all add: demo_client_def)
  have e: "str_int 50 = lit ''50''" "str_int 1700000000000 = lit ''1700000000000''"
    "MEXC_BASE_URL @ lit ''/api/v3/order'' = lit ''https://api.mexc.com/api/v3/order''"
    by (simp_all add: str_int_def str_nat.simps lit_def MEXC_BASE_URL_def)
  from place_order_dispatch [OF h, of "demo_world TransportFailure"]
  obtain signature where
    "sent (snd (place_order demo_client (PStr (lit ''BTCUSDT'')) (PStr (lit ''BUY'')) (PInt 50)
                     (PStr (lit ''MARKET'')) (demo_world TransportFailure))) =
        [\<lparr>req_method = lit ''POST'',
          req_url = lit ''https://api.mexc.com/api/v3/order'',
          req_carrier = JsonBody
            [(lit ''symbol'', PStr (lit ''BTCUSDT'')), (lit ''side'', PStr (lit ''BUY'')),
             (lit ''type'', PStr (lit ''MARKET'')), (lit ''quoteOrderQty'', PStr (lit ''50'')),
             (lit ''timestamp'', PStr (lit ''1700000000000'')),
             (lit ''signature'', PStr signature)],
          req_headers = [(lit ''X-MEXC-APIKEY'', lit ''key''),
                         (lit ''Content-Type'', lit ''application/json'')]\<rparr>]"
    by (auto simp add: e demo_world_def demo_client_def)
  with h show ?thesis by blast
qed

text \<open>
  C4, as stated for every symbol, fails: for a symbol that is a lone surrogate,
  \<open>place_order\<close> raises \<open>UnicodeEncodeError\<close> while signing and posts nothing.
\<close>

theorem place_order_no_dispatch_example:
  "fst (place_order demo_client (PStr [0xD800]) (PStr (lit ''BUY'')) (PInt 50)
         (PStr (lit ''MARKET'')) (demo_world (HttpResponse 200 (Some (JObj [])))))
     = Inl UnicodeEncodeError
   \<and> sent (snd (place_order demo_client (PStr [0xD800]) (PStr (lit ''BUY'')) (PInt 50)
         (PStr (lit ''MARKET'')) (demo_world (HttpResponse 200 (Some (JObj []))))))
     = []"
  by (simp add: place_order_def order_params_def send_request_def world_ops Let_def demo_defs
      generate_signature_def query_string_def sorted_items_def str_int_def str_nat.simps
      utf8_char_def lit_def)

lemma sig_exists_1:
  assumes "encodable (secret_key self)" and "encodable (py_str v)"
  shows "\<exists>s. generate_signature self
           (dict_set (lit ''timestamp'') (PStr (str_int t)) [(lit ''symbol'', v)])
           (PStr (str_int t)) = Inr s"
proof (rule generate_signature_encodable [OF assms(1)], rule encodable_query_string)
  fix k u
  assume "(k, u) \<in> set (dict_set (lit ''timestamp'') (PStr (str_int t)) [(lit ''symbol'', v)])"
  with assms(2) show "encodable k \<and> encodable (py_str u)"
    by (auto split: if_splits)
next
  show "encodable (py_str (PStr (str_int t)))" by simp
qed

lemma sig_exists_0:
  assumes "encodable (secret_key self)"
  shows "\<exists>s. generate_signature self
           (dict_set (lit ''timestamp'') (PStr (str_int t)) [])
           (PStr (str_int t)) = Inr s"
proof (rule generate_signature_encodable [OF assms(1)], rule encodable_query_string)
  fix k u
  assume "(k, u) \<in> set (dict_set (lit ''timestamp'') (PStr (str_int t)) [])"
  then show "encodable k \<and> encodable (py_str u)"
    by auto
next
  show "encodable (py_str (PStr (str_int t)))" by simp
qed

lemma result_for_response_json: "result_for out r \<longleftrightarrow> r = response_json out"
proof (cases out)
  case TransportFailure
  then show ?thesis
    by (simp add: result_for_def response_json_def)
next
  case (HttpResponse status body)
  then show ?thesis
    by (cases body) (auto simp add: result_for_def response_json_def)
qed

lemma place_order_sends_once:
  assumes "encodable (secret_key self)" and "encodable (py_str symbol)"
    and "encodable (py_str side)" and "encodable (py_str quantity)"
    and "encodable (py_str order_type)"
  shows "\<exists>req r. sent (snd (place_order self symbol side quantity order_type w)) = sent w @ [req]
           \<and> req_method req = lit ''POST''
           \<and> req_url req = base_url self @ lit ''/api/v3/order''
           \<and> fst (place_order self symbol side quantity order_type w) = Inr r
           \<and> result_for (network w (sent w) req) r"
proof -
  obtain s where "generate_signature self
           (order_params symbol side quantity order_type
              @ [(lit ''timestamp'', PStr (str_int (time_ms w (ticks w))))])
           (PStr (str_int (time_ms w (ticks w)))) = Inr s"
    using order_signature_exists [OF assms] by blast
  then show ?thesis
    by (simp add: place_order_def new_dict_def record_call_def send_request_signed
        order_params_timestamp Let_def result_for_response_json)
qed

lemma get_account_info_sends_once:
  assumes "encodable (secret_key self)"
  shows "\<exists>req r. sent (snd (get_account_info self w)) = sent w @ [req]
           \<and> req_method req = lit ''GET''
           \<and> req_url req = base_url self @ lit ''/api/v3/account''
           \<and> fst (get_account_info self w) = Inr r
           \<and> result_for (network w (sent w) req) r"
proof -
  obtain s where "generate_signature self
           (dict_set (lit ''timestamp'') (PStr (str_int (time_ms w (ticks w)))) [])
           (PStr (str_int (time_ms w (ticks w)))) = Inr s"
    using sig_exists_0 [OF assms] by blast
  then show ?thesis
    by (simp add: get_account_info_def record_call_def send_request_None send_request_signed
        Let_def result_for_response_json)
qed

lemma cancel_all_orders_returns:
  assumes "encodable (secret_key self)" and "encodable (py_str symbol)"
  shows "\<exists>r. fst (cancel_all_orders self symbol w) = Inr r
           \<and> (sent (snd (cancel_all_orders self symbol w)) = sent w \<and> r = JNull
              \<or> (\<exists>req. sent (snd (cancel_all_orders self symbol w)) = sent w @ [req]
                     \<and> result_for (network w (sent w) req) r))"
proof -
  obtain s where "generate_signature self
           (dict_set (lit ''timestamp'') (PStr (str_int (time_ms w (ticks w))))
              [(lit ''symbol'', symbol)])
           (PStr (str_int (time_ms w (ticks w)))) = Inr s"
    using sig_exists_1 [OF assms] by blast
  then show ?thesis
    by (simp add: cancel_all_orders_def new_dict_def record_call_def send_request_signed Let_def)
qed

text \<open>
  C7, as the code has it. When the secret key and the texts of the arguments have UTF-8
  bytes, no operation of the client raises, and none retries. \<open>place_order\<close> hands
  exactly one request to \<open>requests\<close>, a POST to \<open>/api/v3/order\<close>, and
  \<open>get_account_info\<close> exactly one, a GET to \<open>/api/v3/account\<close>; each returns \<open>None\<close> when
  the request met a transport failure, a status from 400 to 599 or a body that is not
  JSON, and the parsed JSON body when the status is outside 400 to 599 and the body is
  JSON. \<open>cancel_all_orders\<close> returns too, after at most one request: \<open>None\<close> if it sent
  none, and otherwise what the one request's outcome gives in the same way.
\<close>

theorem client_operations_return:
  assumes "encodable (secret_key self)" and "encodable (py_str symbol)"
    and "encodable (py_str side)" and "encodable (py_str quantity)"
    and "encodable (py_str order_type)"
  shows "(\<exists>req r. sent (snd (place_order self symbol side quantity order_type w)) = sent w @ [req]
           \<and> req_method req = lit ''POST''
           \<and> req_url req = base_url self @ lit ''/api/v3/order''
           \<and> fst (place_order self symbol side quantity order_type w) = Inr r
           \<and> result_for (network w (sent w) req) r)
       \<and> (\<exists>req r. sent (snd (get_account_info self w)) = sent w @ [req]
           \<and> req_method req = lit ''GET''
           \<and> req_url req = base_url self @ lit ''/api/v3/account''
           \<and> fst (get_account_info self w) = Inr r
           \<and> result_for (network w (sent w) req) r)
       \<and> (\<exists>r. fst (cancel_all_orders self symbol w) = Inr r
           \<and> (sent (snd (cancel_all_orders self symbol w)) = sent w \<and> r = JNull
              \<or> (\<exists>req. sent (snd (cancel_all_orders self symbol w)) = sent w @ [req]
                     \<and> result_for (network w (sent w) req) r)))"
  using place_order_sends_once [OF assms] get_account_info_sends_once [OF assms(1)]
    cancel_all_orders_returns [OF assms(1,2)]
  by blast

theorem client_operations_return_witness:
  "encodable (secret_key demo_client) \<and> encodable (py_str (PStr (lit ''ETHUSDT'')))
   \<and> encodable (py_str (PStr (lit ''SELL''))) \<and> encodable (py_str (PInt 10))
   \<and> encodable (py_str (PStr (lit ''MARKET'')))
   \<and> fst (place_order demo_client (PStr (lit ''ETHUSDT'')) (PStr (lit ''SELL'')) (PInt 10)
           (PStr (lit ''MARKET'')) (demo_world (HttpResponse 503 (Some (JObj [])))))
     = Inr JNull
   \<and> length (sent (snd (place_order demo_client (PStr (lit ''ETHUSDT'')) (PStr (lit ''SELL''))
           (PInt 10) (PStr (lit ''MARKET'')) (demo_world (HttpResponse 503 (Some (JObj [])))))))
     = 1
   \<and> fst (get_account_info demo_client (demo_world (HttpResponse 503 (Some (JObj [])))))
     = Inr JNull
   \<and> length (sent (snd (get_account_info demo_client
           (demo_world (HttpResponse 503 (Some (JObj []))))))) = 1"
proof -
  let ?w = "demo_world (HttpResponse 503 (Some (JObj [])))"
  have h: "encodable (secret_key demo_client)" "encodable (py_str (PStr (lit ''ETHUSDT'')))"
    "encodable (py_str (PStr (lit ''SELL'')))" "encodable (py_str (PInt 10))"
    "encodable (py_str (PStr (lit ''MARKET'')))"
    by (simp_all add: demo_client_def)
  have n: "network ?w history req = HttpResponse 503 (Some (JObj []))" for history req
    by (simp add: demo_world_def)
  have s: "sent ?w = []"
    by (simp add: demo_world_def)
  have f: "result_for (HttpResponse 503 (Some (JObj []))) r \<Longrightarrow> r = JNull" for r
    by (simp add: result_for_def)
  note c = client_operations_return [OF h, of ?w]
  from c [THEN conjunct1] obtain req r where
    "sent (snd (place_order demo_client (PStr (lit ''ETHUSDT'')) (PStr (lit ''SELL'')) (PInt 10)
        (PStr (lit ''MARKET'')) ?w)) = sent ?w @ [req]"
    "fst (place_order demo_client (PStr (lit ''ETHUSDT'')) (PStr (lit ''SELL'')) (PInt 10)
        (PStr (lit ''MARKET'')) ?w) = Inr r"
    "result_for (network ?w (sent ?w) req) r"
    by blast
  then have 1: "fst (place_order demo_client (PStr (lit ''ETHUSDT'')) (PStr (lit ''SELL'')) (PInt 10)
        (PStr (lit ''MARKET'')) ?w) = Inr JNull"
    "length (sent (snd (place_order demo_client (PStr (lit ''ETHUSDT'')) (PStr (lit ''SELL''))
        (PInt 10) (PStr (lit ''MARKET'')) ?w))) = 1"
    using f by (simp_all add: n s)
  from c [THEN conjunct2, THEN conjunct1] obtain req' r' where
    "sent (snd (get_account_info demo_client ?w)) = sent ?w @ [req']"
    "fst (get_account_info demo_client ?w) = Inr r'"
    "result_for (network ?w (sent ?w) req') r'"
    by blast
  then have 2: "fst (get_account_info demo_client ?w) = Inr JNull"
    "length (sent (snd (get_account_info demo_client ?w))) = 1"
    using f by (simp_all add: n s)
  from h 1 2 show ?thesis by blast
qed

text \<open>
  C7, as stated for every input and every status other than 2xx, fails twice:
  \<open>cancel_all_orders\<close> with a lone surrogate as symbol raises \<open>UnicodeEncodeError\<close>, since
  the signature is computed before the \<open>try\<close> block; and \<open>get_account_info\<close> returns the
  JSON body of a response with status 300, which \<open>raise_for_status\<close> lets pass.
\<close>

theorem client_operations_counterexample:
  "fst (cancel_all_orders demo_client (PStr [0xD83D]) (demo_world TransportFailure))
     = Inl UnicodeEncodeError
   \<and> fst (get_account_info demo_client
            (demo_world (HttpResponse 300 (Some (JObj [(lit ''code'', JInt 300)])))))
     = Inr (JObj [(lit ''code'', JInt 300)])"
  by (simp add: eval_defs)

section \<open>The webhook\<close>

lemma place_order_calls:
  "calls (snd (place_order self symbol side quantity order_type w))
   = calls w @ [PlaceOrder symbol side quantity order_type]"
  by (simp add: place_order_def new_dict_def record_call_def send_request_calls Let_def)

lemma cancel_all_orders_calls:
  "calls (snd (cancel_all_orders self symbol w)) = calls w @ [CancelAllOrders symbol]"
  by (simp add: cancel_all_orders_def new_dict_def record_call_def send_request_calls Let_def)

lemma trade_reply_world: "snd (trade_reply message rw) = snd rw"
  by (simp add: trade_reply_def split: sum.splits)

lemma webhook_with_trader:
  assumes "trader g = Some tr"
  shows "webhook (Dict data) g w =
     (case run_action tr (dict_get data (lit ''action'') PNone)
             (dict_get data (lit ''symbol'') (PStr (lit ''BTCUSDT'')))
             (dict_get data (lit ''quantity'') (PInt 10)) w of
        None \<Rightarrow> ((400, Error (lit ''Invalid action'')), g, w)
      | Some (message, rw) \<Rightarrow> (fst (trade_reply message rw), g, snd rw))"
  using assms
  by (simp add: webhook_def Let_def split_def trade_reply_world split: option.splits)

text \<open>
  C5. With a trader, a webhook whose body is a dict calls, by its action: for \<open>buy\<close> and
  \<open>long\<close>, \<open>place_order\<close> exactly once, with side \<open>BUY\<close>; for \<open>sell\<close> and \<open>short\<close>,
  \<open>place_order\<close> exactly once, with side \<open>SELL\<close>; for \<open>close_long\<close>, \<open>close_short\<close> and
  \<open>close\<close>, \<open>cancel_all_orders\<close> exactly once and \<open>place_order\<close> not at all; for any
  other action it answers 400 with \<open>Invalid action\<close> and leaves the world as it was, so
  that no method of the client is called and no request sent. A body with action \<open>long\<close>
  and a body with action \<open>buy\<close>, with the same symbol and quantity, give the same reply
  and the same world.
\<close>

theorem webhook_routes_action:
  assumes "trader g = Some tr"
  shows
    "(dict_get data (lit ''action'') PNone \<in> {PStr (lit ''buy''), PStr (lit ''long'')} \<longrightarrow>
        calls (snd (snd (webhook (Dict data) g w))) =
        calls w @ [PlaceOrder (dict_get data (lit ''symbol'') (PStr (lit ''BTCUSDT'')))
                     (PStr (lit ''BUY'')) (dict_get data (lit ''quantity'') (PInt 10))
                     (PStr (lit ''MARKET''))])
   \<and> (dict_get data (lit ''action'') PNone \<in> {PStr (lit ''sell''), PStr (lit ''short'')} \<longrightarrow>
        calls (snd (snd (webhook (Dict data) g w))) =
        calls w @ [PlaceOrder (dict_get data (lit ''symbol'') (PStr (lit ''BTCUSDT'')))
                     (PStr (lit ''SELL'')) (dict_get data (lit ''quantity'') (PInt 10))
                     (PStr (lit ''MARKET''))])
   \<and> (dict_get data (lit ''action'') PNone
          \<in> {PStr (lit ''close_long''), PStr (lit ''close_short''), PStr (lit ''close'')} \<longrightarrow>
        calls (snd (snd (webhook (Dict data) g w))) =
        calls w @ [CancelAllOrders (dict_get data (lit ''symbol'') (PStr (lit ''BTCUSDT'')))])
   \<and> (dict_get data (lit ''action'') PNone
          \<notin> {PStr (lit ''buy''), PStr (lit ''long''), PStr (lit ''sell''), PStr (lit ''short''),
              PStr (lit ''close_long''), PStr (lit ''close_short''), PStr (lit ''close'')} \<longrightarrow>
        webhook (Dict data) g w = ((400, Error (lit ''Invalid action'')), g, w))
   \<and> (\<forall>data'.
        dict_get data (lit ''action'') PNone = PStr (lit ''buy'')
        \<and> dict_get data' (lit ''action'') PNone = PStr (lit ''long'')
        \<and> dict_get data' (lit ''symbol'') (PStr (lit ''BTCUSDT''))
            = dict_get data (lit ''symbol'') (PStr (lit ''BTCUSDT''))
        \<and> dict_get data' (lit ''quantity'') (PInt 10)
            = dict_get data (lit ''quantity'') (PInt 10)
        \<longrightarrow> webhook (Dict data') g w = webhook (Dict data) g w)"
proof (intro conjI impI allI)
  assume "dict_get data (lit ''action'') PNone \<in> {PStr (lit ''buy''), PStr (lit ''long'')}"
  then show "calls (snd (snd (webhook (Dict data) g w))) =
        calls w @ [PlaceOrder (dict_get data (lit ''symbol'') (PStr (lit ''BTCUSDT'')))
                     (PStr (lit ''BUY'')) (dict_get data (lit ''quantity'') (PInt 10))
                     (PStr (lit ''MARKET''))]"
    by (auto simp add: webhook_with_trader [OF assms] run_action_def place_order_calls)
next
  assume a: "dict_get data (lit ''action'') PNone \<in> {PStr (lit ''sell''), PStr (lit ''short'')}"
  have "lit ''sell'' \<noteq> lit ''buy''" "lit ''sell'' \<noteq> lit ''long''"
    "lit ''short'' \<noteq> lit ''buy''" "lit ''short'' \<noteq> lit ''long''"
    by (simp_all add: lit_def)
  with a show "calls (snd (snd (webhook (Dict data) g w))) =
        calls w @ [PlaceOrder (dict_get data (lit ''symbol'') (PStr (lit ''BTCUSDT'')))
                     (PStr (lit ''SELL'')) (dict_get data (lit ''quantity'') (PInt 10))
                     (PStr (lit ''MARKET''))]"
    by (auto simp add: webhook_with_trader [OF assms] run_action_def place_order_calls)
next
  assume a: "dict_get data (lit ''action'') PNone
          \<in> {PStr (lit ''close_long''), PStr (lit ''close_short''), PStr (lit ''close'')}"
  have "lit ''close_long'' \<noteq> lit ''buy''" "lit ''close_long'' \<noteq> lit ''long''"
    "lit ''close_long'' \<noteq> lit ''sell''" "lit ''close_long'' \<noteq> lit ''short''"
    "lit ''close_short'' \<noteq> lit ''buy''" "lit ''close_short'' \<noteq> lit ''long''"
    "lit ''close_short'' \<noteq> lit ''sell''" "lit ''close_short'' \<noteq> lit ''short''"
    "lit ''close'' \<noteq> lit ''buy''" "lit ''close'' \<noteq> lit ''long''"
    "lit ''close'' \<noteq> lit ''sell''" "lit ''close'' \<noteq> lit ''short''"
    by (simp_all add: lit_def)
  with a show "calls (snd (snd (webhook (Dict data) g w))) =
        calls w @ [CancelAllOrders (dict_get data (lit ''symbol'') (PStr (lit ''BTCUSDT'')))]"
    by (auto simp add: webhook_with_trader [OF assms] run_action_def cancel_all_orders_calls)
next
  assume "dict_get data (lit ''action'') PNone
          \<notin> {PStr (lit ''buy''), PStr (lit ''long''), PStr (lit ''sell''), PStr (lit ''short''),
              PStr (lit ''close_long''), PStr (lit ''close_short''), PStr (lit ''close'')}"
  then show "webhook (Dict data) g w = ((400, Error (lit ''Invalid action'')), g, w)"
    by (simp add: webhook_with_trader [OF assms] run_action_def)
next
  fix data'
  assume "dict_get data (lit ''action'') PNone = PStr (lit ''buy'')
        \<and> dict_get data' (lit ''action'') PNone = PStr (lit ''long'')
        \<and> dict_get data' (lit ''symbol'') (PStr (lit ''BTCUSDT''))
            = dict_get data (lit ''symbol'') (PStr (lit ''BTCUSDT''))
        \<and> dict_get data' (lit ''quantity'') (PInt 10)
            = dict_get data (lit ''quantity'') (PInt 10)"
  then show "webhook (Dict data') g w = webhook (Dict data) g w"
    by (simp add: webhook_with_trader [OF assms] run_action_def)
qed

theorem webhook_routes_action_witness:
  "trader demo_globals = Some demo_client
   \<and> calls (snd (snd (webhook (Dict [(lit ''action'', PStr (lit ''buy''))]) demo_globals
                        (demo_world TransportFailure))))
     = [PlaceOrder (PStr (lit ''BTCUSDT'')) (PStr (lit ''BUY'')) (PInt 10) (PStr (lit ''MARKET''))]
   \<and> calls (snd (snd (webhook (Dict [(lit ''action'', PStr (lit ''close'')),
                                     (lit ''symbol'', PStr (lit ''ETHUSDT''))]) demo_globals
                        (demo_world TransportFailure))))
     = [CancelAllOrders (PStr (lit ''ETHUSDT''))]
   \<and> webhook (Dict [(lit ''action'', PStr (lit ''xyz''))]) demo_globals (demo_world TransportFailure)
     = ((400, Error (lit ''Invalid action'')), demo_globals, demo_world TransportFailure)
   \<and> webhook (Dict [(lit ''action'', PStr (lit ''long''))]) demo_globals (demo_world TransportFailure)
     = webhook (Dict [(lit ''action'', PStr (lit ''buy''))]) demo_globals (demo_world TransportFailure)"
proof -
  let ?w = "demo_world TransportFailure"
  let ?buy = "[(lit ''action'', PStr (lit ''buy''))]"
  let ?long = "[(lit ''action'', PStr (lit ''long''))]"
  let ?close = "[(lit ''action'', PStr (lit ''close'')), (lit ''symbol'', PStr (lit ''ETHUSDT''))]"
  let ?xyz = "[(lit ''action'', PStr (lit ''xyz''))]"
  have t: "trader demo_globals = Some demo_client"
    by (simp add: demo_globals_def)
  have c: "calls ?w = []"
    by (simp add: demo_world_def)
  have keys: "lit ''action'' \<noteq> lit ''symbol''" "lit ''action'' \<noteq> lit ''quantity''"
    "lit ''symbol'' \<noteq> lit ''quantity''" "lit ''symbol'' \<noteq> lit ''action''"
    by (simp_all add: lit_def)
  have buy: "dict_get ?buy (lit ''action'') PNone = PStr (lit ''buy'')"
    "dict_get ?buy (lit ''symbol'') (PStr (lit ''BTCUSDT'')) = PStr (lit ''BTCUSDT'')"
    "dict_get ?buy (lit ''quantity'') (PInt 10) = PInt 10"
    using keys by (simp_all add: dict_get_def)
  have long: "dict_get ?long (lit ''action'') PNone = PStr (lit ''long'')"
    "dict_get ?long (lit ''symbol'') (PStr (lit ''BTCUSDT'')) = PStr (lit ''BTCUSDT'')"
    "dict_get ?long (lit ''quantity'') (PInt 10) = PInt 10"
    using keys by (simp_all add: dict_get_def)
  have close: "dict_get ?close (lit ''action'') PNone = PStr (lit ''close'')"
    "dict_get ?close (lit ''symbol'') (PStr (lit ''BTCUSDT'')) = PStr (lit ''ETHUSDT'')"
    using keys by (simp_all add: dict_get_def)
  have xyz: "dict_get ?xyz (lit ''action'') PNone = PStr (lit ''xyz'')"
    by (simp add: dict_get_def)
  have other: "PStr (lit ''xyz'')
          \<notin> {PStr (lit ''buy''), PStr (lit ''long''), PStr (lit ''sell''), PStr (lit ''short''),
              PStr (lit ''close_long''), PStr (lit ''close_short''), PStr (lit ''close'')}"
    by (simp add: lit_def)
  note b = webhook_routes_action [OF t, of ?buy ?w]
  have 1: "calls (snd (snd (webhook (Dict ?buy) demo_globals ?w)))
     = [PlaceOrder (PStr (lit ''BTCUSDT'')) (PStr (lit ''BUY'')) (PInt 10) (PStr (lit ''MARKET''))]"
    using b [THEN conjunct1] by (simp add: buy c)
  have 2: "calls (snd (snd (webhook (Dict ?close) demo_globals ?w)))
     = [CancelAllOrders (PStr (lit ''ETHUSDT''))]"
    using webhook_routes_action [OF t, of ?close ?w, THEN conjunct2, THEN conjunct2, THEN conjunct1]
    by (simp add: close c)
  have 3: "webhook (Dict ?xyz) demo_globals ?w
     = ((400, Error (lit ''Invalid action'')), demo_globals, ?w)"
    using webhook_routes_action [OF t, of ?xyz ?w, THEN conjunct2, THEN conjunct2, THEN conjunct2,
        THEN conjunct1] other
    by (simp only: xyz simp_thms)
  have 4: "webhook (Dict ?long) demo_globals ?w = webhook (Dict ?buy) demo_globals ?w"
    using b [THEN conjunct2, THEN conjunct2, THEN conjunct2, THEN conjunct2, THEN spec, of ?long]
    by (simp only: buy long simp_thms)
  from t 1 2 3 4 show ?thesis by blast
qed

text \<open>
  C10. With a trader and a recognized action, the webhook answers 200 exactly when the
  client's method returned a value that is true under \<open>if\<close>, and then with the status
  object, the message and that value; when the method returned a value that is not true
  (\<open>None\<close> after a failure, but also an empty JSON object or array, zero, an empty
  string, \<open>false\<close> or \<open>null\<close> from a call that succeeded) it answers 500 with
  \<open>Trade failed\<close>.
\<close>

theorem webhook_success_iff_truthy:
  assumes "trader g = Some tr"
    and "run_action tr (dict_get data (lit ''action'') PNone)
           (dict_get data (lit ''symbol'') (PStr (lit ''BTCUSDT'')))
           (dict_get data (lit ''quantity'') (PInt 10)) w = Some (message, rw)"
  shows "(fst (fst (webhook (Dict data) g w)) = 200 \<longleftrightarrow> (\<exists>r. fst rw = Inr r \<and> truthy r))
       \<and> (\<forall>r. fst rw = Inr r \<and> truthy r \<longrightarrow>
             fst (webhook (Dict data) g w) = (200, Executed message r))
       \<and> (\<forall>r. fst rw = Inr r \<and> \<not> truthy r \<longrightarrow>
             fst (webhook (Dict data) g w) = (500, Error (lit ''Trade failed'')))"
  using assms(2)
  by (auto simp add: webhook_with_trader [OF assms(1)] trade_reply_def split: sum.splits)

theorem webhook_success_iff_truthy_witness:
  "trader demo_globals = Some demo_client
   \<and> fst (place_order demo_client (PStr (lit ''BTCUSDT'')) (PStr (lit ''BUY'')) (PInt 10)
           (PStr (lit ''MARKET'')) (demo_world (HttpResponse 200 (Some (JObj [])))))
     = Inr (JObj [])
   \<and> \<not> truthy (JObj [])
   \<and> fst (webhook (Dict [(lit ''action'', PStr (lit ''buy''))]) demo_globals
           (demo_world (HttpResponse 200 (Some (JObj [])))))
     = (500, Error (lit ''Trade failed''))"
proof -
  have t: "trader demo_globals = Some demo_client"
    by (simp add: demo_globals_def)
  have r: "run_action demo_client (dict_get [(lit ''action'', PStr (lit ''buy''))] (lit ''action'') PNone)
           (dict_get [(lit ''action'', PStr (lit ''buy''))] (lit ''symbol'') (PStr (lit ''BTCUSDT'')))
           (dict_get [(lit ''action'', PStr (lit ''buy''))] (lit ''quantity'') (PInt 10))
           (demo_world (HttpResponse 200 (Some (JObj [])))) =
         Some (lit ''LONG a'' @ [231, 305] @ lit ''ld'' @ [305] @ lit '': ''
                 @ py_str (PStr (lit ''BTCUSDT'')) @ lit '' - '' @ py_str (PInt 10) @ lit '' USDT'',
               place_order demo_client (PStr (lit ''BTCUSDT'')) (PStr (lit ''BUY'')) (PInt 10)
                 (PStr (lit ''MARKET'')) (demo_world (HttpResponse 200 (Some (JObj [])))))"
    by (simp add: run_action_def dict_get_def lit_def)
  have p: "fst (place_order demo_client (PStr (lit ''BTCUSDT'')) (PStr (lit ''BUY'')) (PInt 10)
           (PStr (lit ''MARKET'')) (demo_world (HttpResponse 200 (Some (JObj [])))))
     = Inr (JObj [])"
    by (simp add: eval_defs)
  show ?thesis
    using t p webhook_success_iff_truthy [OF t r] by simp
qed

section \<open>Missing credentials\<close>

lemma initialize_trader_without_credentials:
  assumes "MEXC_API_KEY g = None \<or> MEXC_SECRET_KEY g = None"
  shows "initialize_trader g = (False, g)"
  using assms by (auto simp add: initialize_trader_def split: option.splits)

lemma handle_without_credentials:
  assumes "MEXC_API_KEY g = None \<or> MEXC_SECRET_KEY g = None" and "trader g = None"
  shows "handle r g w = (uninitialized_reply r, g, w)"
proof (cases r)
  case (PostWebhook body)
  then show ?thesis
    using assms(2)
    by (cases body)
      (simp_all add: webhook_def initialize_trader_without_credentials [OF assms(1)])
next
  case PostTest
  then show ?thesis
    using assms(2)
    by (simp add: test_trade_def initialize_trader_without_credentials [OF assms(1)])
qed

text \<open>
  C6, as the code has it. When \<open>MEXC_API_KEY\<close> or \<open>MEXC_SECRET_KEY\<close> is not set (and so
  no trader was made when the module was loaded), every sequence of \<open>/webhook\<close> and
  \<open>/test\<close> requests leaves the globals and the world as they were: no client is
  constructed and no request is sent. Every \<open>/test\<close> request and every \<open>/webhook\<close>
  request whose body could be read is answered 500 with the route's initialization error;
  a \<open>/webhook\<close> request whose body could not be read is answered 500 with the parser's
  exception.
\<close>

theorem serve_without_credentials:
  assumes "MEXC_API_KEY g = None \<or> MEXC_SECRET_KEY g = None" and "trader g = None"
  shows "serve rs g w = (map uninitialized_reply rs, g, w)"
  by (induction rs) (simp_all add: handle_without_credentials [OF assms])

theorem serve_without_credentials_witness:
  "(MEXC_API_KEY unconfigured = None \<or> MEXC_SECRET_KEY unconfigured = None)
   \<and> trader unconfigured = None
   \<and> serve [PostWebhook (Dict [(lit ''action'', PStr (lit ''buy''))]), PostTest,
             PostWebhook NotADict] unconfigured (demo_world TransportFailure)
     = ([(500, Error (lit ''MEXC trader not initialized'')),
         (500, Error (lit ''Trader not initialized'')),
         (500, Error (lit ''MEXC trader not initialized''))],
        unconfigured, demo_world TransportFailure)"
proof -
  have h: "MEXC_API_KEY unconfigured = None \<or> MEXC_SECRET_KEY unconfigured = None"
    "trader unconfigured = None"
    by (simp_all add: unconfigured_def)
  show ?thesis
    using h serve_without_credentials [OF h, of
        "[PostWebhook (Dict [(lit ''action'', PStr (lit ''buy''))]), PostTest,
          PostWebhook NotADict]" "demo_world TransportFailure"]
    by simp
qed

text \<open>
  C6, as stated for any \<open>/webhook\<close> request, fails: without credentials, a request whose
  body \<open>get_json\<close> cannot read is answered with that exception's text, not with the
  initialization error.
\<close>

theorem webhook_unreadable_body_example:
  "MEXC_API_KEY unconfigured = None
   \<and> fst (webhook (Unreadable (lit ''400 Bad Request'')) unconfigured (demo_world TransportFailure))
     = (500, ErrorOf (BadRequest (lit ''400 Bad Request'')))"
  by (simp add: webhook_def unconfigured_def)

end
